theory Spec2Isabelle
  imports Complex_Main "HOL-Library.AList"
begin

section \<open>ValutaTrade Hub: wallets, portfolios, buy/sell and the rates updater\<close>

text \<open>
  A shallow embedding of \<^verbatim>\<open>core/models.py\<close>, \<^verbatim>\<open>core/usecases.py\<close>,
  \<^verbatim>\<open>core/currencies.py\<close>, \<^verbatim>\<open>core/exceptions.py\<close>,
  \<^verbatim>\<open>parser_service/updater.py\<close> and \<^verbatim>\<open>parser_service/api_clients.py\<close>.

  Conventions.
  \<^item> Python \<^verbatim>\<open>float\<close> amounts and balances are values of a number type \<open>'n\<close>, read as exact
    real numbers or as IEEE 754 floats (see Numbers below); the rates of the valuation
    and of the updater are real numbers.
  \<^item> A Python \<^verbatim>\<open>dict\<close> is an association list in insertion order: lookup is \<open>map_of\<close>,
    \<^verbatim>\<open>d[k] = v\<close> is \<open>AList.update\<close> (overwrite in place, or append a new key).
  \<^item> An exception is a value of \<open>exn\<close>; a function that can raise returns \<open>exn + 'a\<close>.
  \<^item> Messages of exceptions and log records are Russian text in the source; they are
    represented by constructors that name the message.
\<close>

subsection \<open>Exceptions\<close>

text \<open>
  The \<^verbatim>\<open>ValueError\<close>s of the source, by message:
  \<^item> \<open>AmountNotPositive\<close>: buy/sell, "the amount must be positive";
  \<^item> \<open>NoWallet c\<close>: sell, "you have no wallet for currency c";
  \<^item> \<open>NegativeBalance\<close>: balance setter, "the balance cannot be negative";
  \<^item> \<open>DepositNotPositive\<close>, \<open>WithdrawNotPositive\<close>: \<^verbatim>\<open>Wallet.deposit\<close>, \<^verbatim>\<open>Wallet.withdraw\<close>;
  \<^item> \<open>WalletExists c\<close>: \<^verbatim>\<open>Portfolio.add_currency\<close>;
  \<^item> \<open>UnpackError\<close>: a tuple unpacking of the wrong length.
\<close>

datatype value_error =
    AmountNotPositive
  | NoWallet string
  | NegativeBalance
  | DepositNotPositive
  | WithdrawNotPositive
  | WalletExists string
  | UnpackError

text \<open>
  The reason carried by \<^verbatim>\<open>ApiRequestError\<close>, by the place that raises it: a failed request,
  an unreadable body, or a provider answer whose \<^verbatim>\<open>result\<close> is not \<^verbatim>\<open>success\<close> (with its
  \<^verbatim>\<open>error-type\<close>, when the answer has one).
\<close>

datatype api_reason =
    NetworkError string
  | BadResponseFormat string
  | ApiError "string option"

text \<open>
  \<^verbatim>\<open>InsufficientFundsError\<close> carries the currency code, the available and the required
  amount; no function of the source raises it.
\<close>

datatype exn =
    ValueError value_error
  | InsufficientFundsError string real real
  | CurrencyNotFoundError string
  | ApiRequestError api_reason
  | KeyError string
  | AttributeError

subsection \<open>Strings\<close>

text \<open>
  \<^verbatim>\<open>str.upper()\<close> on ASCII text: the letters a to z are mapped to A to Z, every other
  byte is unchanged. Currency codes and source names are ASCII.
\<close>

definition upper_char :: "char \<Rightarrow> char" where
  "upper_char c =
     (case map_of (zip ''abcdefghijklmnopqrstuvwxyz'' ''ABCDEFGHIJKLMNOPQRSTUVWXYZ'') c of
        Some u \<Rightarrow> u
      | None \<Rightarrow> c)"

definition upper :: "string \<Rightarrow> string" where
  "upper s = map upper_char s"

subsection \<open>Numbers\<close>

text \<open>
  Amounts, balances and rates are Python \<^verbatim>\<open>float\<close>s. The wallet and the portfolio manager
  use only \<^verbatim>\<open>0.0\<close>, \<^verbatim>\<open>+\<close>, \<^verbatim>\<open>-\<close>, \<^verbatim>\<open>*\<close> and the comparisons, so their embedding is
  written once, for any number type \<open>'n\<close> with these operations, and read at two types:
  \<^item> \<open>real\<close>: exact arithmetic, for the properties that do not depend on rounding or on
    the special values;
  \<^item> \<open>pyfloat\<close>: IEEE 754 binary64 as Python computes it, with the two infinities, NaN,
    and every result rounded to the nearest value, ties to even.
  The two zeros of binary64 compare equal and are one value here. A \<open>Finite\<close> value stands
  for a float when rounding leaves it unchanged (\<open>is_binary64\<close>). An integer balance that a
  JSON document may hold counts as the float of the same value.
\<close>

datatype pyfloat = Finite real | PosInf | NegInf | NaN

definition round_half_even :: "real \<Rightarrow> int" where
  "round_half_even y =
     (let f = \<lfloor>y\<rfloor>; d = y - of_int f
      in if d < 1 / 2 then f
         else if 1 / 2 < d then f + 1
         else if even f then f else f + 1)"

text \<open>
  The binary exponent of a positive \<open>x\<close>, searched downwards from 1023, the exponent of the
  largest floats: the largest \<open>k\<close> with \<open>2 ^ k \<le> x\<close>, and -1022, the exponent of the
  smallest normal floats, when \<open>x\<close> is below that.
\<close>

fun exponent_search :: "nat \<Rightarrow> int \<Rightarrow> real \<Rightarrow> int" where
  "exponent_search 0 k x = k"
| "exponent_search (Suc n) k x =
     (if 2 powi k \<le> x then k else exponent_search n (k - 1) x)"

text \<open>The exponent of the last of the 53 significant bits of \<open>x\<close>.\<close>

definition ulp_exponent :: "real \<Rightarrow> int" where
  "ulp_exponent x = exponent_search 2045 1023 \<bar>x\<bar> - 52"

text \<open>
  Rounding of an exact result to a multiple of its last place; a result of magnitude
  \<open>2 ^ 1024\<close> or more overflows to an infinity.
\<close>

definition fround :: "real \<Rightarrow> pyfloat" where
  "fround x =
     (if x = 0 then Finite 0
      else
        (let e = ulp_exponent x;
             y = of_int (round_half_even (x / 2 powi e)) * 2 powi e
         in if 2 ^ 1024 \<le> \<bar>y\<bar> then (if 0 < y then PosInf else NegInf) else Finite y))"

fun is_binary64 :: "pyfloat \<Rightarrow> bool" where
  "is_binary64 (Finite x) = (fround x = Finite x)"
| "is_binary64 v = True"

fun fadd :: "pyfloat \<Rightarrow> pyfloat \<Rightarrow> pyfloat" where
  "fadd NaN b = NaN"
| "fadd a NaN = NaN"
| "fadd PosInf NegInf = NaN"
| "fadd NegInf PosInf = NaN"
| "fadd PosInf b = PosInf"
| "fadd a PosInf = PosInf"
| "fadd NegInf b = NegInf"
| "fadd a NegInf = NegInf"
| "fadd (Finite a) (Finite b) = fround (a + b)"

fun fsub :: "pyfloat \<Rightarrow> pyfloat \<Rightarrow> pyfloat" where
  "fsub NaN b = NaN"
| "fsub a NaN = NaN"
| "fsub PosInf PosInf = NaN"
| "fsub NegInf NegInf = NaN"
| "fsub PosInf b = PosInf"
| "fsub a PosInf = NegInf"
| "fsub NegInf b = NegInf"
| "fsub a NegInf = PosInf"
| "fsub (Finite a) (Finite b) = fround (a - b)"

text \<open>The sign of a product with an infinity; zero times infinity is NaN.\<close>

definition signed_inf :: "bool \<Rightarrow> pyfloat" where
  "signed_inf positive = (if positive then PosInf else NegInf)"

fun fmul :: "pyfloat \<Rightarrow> pyfloat \<Rightarrow> pyfloat" where
  "fmul NaN b = NaN"
| "fmul a NaN = NaN"
| "fmul (Finite a) (Finite b) = fround (a * b)"
| "fmul (Finite a) PosInf = (if a = 0 then NaN else signed_inf (0 < a))"
| "fmul (Finite a) NegInf = (if a = 0 then NaN else signed_inf (a < 0))"
| "fmul PosInf (Finite b) = (if b = 0 then NaN else signed_inf (0 < b))"
| "fmul NegInf (Finite b) = (if b = 0 then NaN else signed_inf (b < 0))"
| "fmul PosInf PosInf = PosInf"
| "fmul NegInf NegInf = PosInf"
| "fmul PosInf NegInf = NegInf"
| "fmul NegInf PosInf = NegInf"

text \<open>Every comparison with NaN is false.\<close>

fun fless :: "pyfloat \<Rightarrow> pyfloat \<Rightarrow> bool" where
  "fless NaN b = False"
| "fless a NaN = False"
| "fless (Finite a) (Finite b) = (a < b)"
| "fless a PosInf = (a \<noteq> PosInf)"
| "fless NegInf b = (b \<noteq> NegInf)"
| "fless a b = False"

fun fless_eq :: "pyfloat \<Rightarrow> pyfloat \<Rightarrow> bool" where
  "fless_eq NaN b = False"
| "fless_eq a NaN = False"
| "fless_eq (Finite a) (Finite b) = (a \<le> b)"
| "fless_eq a PosInf = True"
| "fless_eq NegInf b = True"
| "fless_eq a b = False"

instantiation pyfloat :: "{zero, plus, minus, times, ord}"
begin

definition zero_pyfloat :: pyfloat where
  "zero_pyfloat = Finite 0"

definition plus_pyfloat :: "pyfloat \<Rightarrow> pyfloat \<Rightarrow> pyfloat" where
  "plus_pyfloat = fadd"

definition minus_pyfloat :: "pyfloat \<Rightarrow> pyfloat \<Rightarrow> pyfloat" where
  "minus_pyfloat = fsub"

definition times_pyfloat :: "pyfloat \<Rightarrow> pyfloat \<Rightarrow> pyfloat" where
  "times_pyfloat = fmul"

definition less_pyfloat :: "pyfloat \<Rightarrow> pyfloat \<Rightarrow> bool" where
  "less_pyfloat = fless"

definition less_eq_pyfloat :: "pyfloat \<Rightarrow> pyfloat \<Rightarrow> bool" where
  "less_eq_pyfloat = fless_eq"

instance ..

end

subsection \<open>Wallet (core/models.py)\<close>

record 'n wallet =
  currency_code :: string
  balance :: 'n

text \<open>The dictionary that \<^verbatim>\<open>Wallet.to_dict\<close> writes and \<^verbatim>\<open>Wallet.from_dict\<close> reads.\<close>

record 'n wallet_dict =
  d_currency_code :: string
  d_balance :: 'n

text \<open>\<^verbatim>\<open>Wallet.__init__\<close> stores both arguments; it does not go through the setter.\<close>

definition Wallet_init :: "string \<Rightarrow> 'n \<Rightarrow> 'n wallet" where
  "Wallet_init code b = \<lparr>currency_code = code, balance = b\<rparr>"

text \<open>
  The \<^verbatim>\<open>balance\<close> setter. Its \<^verbatim>\<open>isinstance\<close> test always passes on a number, which is
  what the type \<open>'n\<close> holds, and \<^verbatim>\<open>float(value)\<close> leaves a float as it is. With a NaN the
  test \<^verbatim>\<open>value < 0\<close> is false and the NaN is stored.
\<close>

definition balance_setter :: "'n::{zero,ord} \<Rightarrow> 'n wallet \<Rightarrow> exn + 'n wallet" where
  "balance_setter v w =
     (if v < 0 then Inl (ValueError NegativeBalance) else Inr (w\<lparr>balance := v\<rparr>))"

definition deposit :: "'n::{zero,plus,ord} \<Rightarrow> 'n wallet \<Rightarrow> exn + 'n wallet" where
  "deposit amount w =
     (if amount \<le> 0 then Inl (ValueError DepositNotPositive)
      else balance_setter (balance w + amount) w)"

text \<open>
  \<^verbatim>\<open>Wallet.withdraw\<close> prints \<^verbatim>\<open>error\<close> when the amount exceeds the balance and then goes on
  to the setter. The first component is what it printed.
\<close>

definition withdraw ::
  "'n::{zero,minus,ord} \<Rightarrow> 'n wallet \<Rightarrow> string list \<times> (exn + 'n wallet)" where
  "withdraw amount w =
     (if amount \<le> 0 then ([], Inl (ValueError WithdrawNotPositive))
      else ((if amount > balance w then [''error''] else []),
            balance_setter (balance w - amount) w))"

definition Wallet_to_dict :: "'n wallet \<Rightarrow> 'n wallet_dict" where
  "Wallet_to_dict w = \<lparr>d_currency_code = currency_code w, d_balance = balance w\<rparr>"

definition Wallet_from_dict :: "'n wallet_dict \<Rightarrow> 'n wallet" where
  "Wallet_from_dict d = Wallet_init (d_currency_code d) (d_balance d)"

subsection \<open>Portfolio (core/models.py)\<close>

record 'n portfolio =
  user_id :: int
  wallets :: "(string \<times> 'n wallet) list"

record 'n portfolio_dict =
  d_user_id :: int
  d_wallets :: "(string \<times> 'n wallet_dict) list"

text \<open>\<^verbatim>\<open>self._wallets = wallets or {}\<close>: no argument and an empty dictionary both give \<open>[]\<close>.\<close>

definition Portfolio_init :: "int \<Rightarrow> (string \<times> 'n wallet) list option \<Rightarrow> 'n portfolio" where
  "Portfolio_init uid ws =
     \<lparr>user_id = uid, wallets = (case ws of None \<Rightarrow> [] | Some m \<Rightarrow> m)\<rparr>"

definition add_currency :: "string \<Rightarrow> 'n::zero portfolio \<Rightarrow> exn + 'n portfolio" where
  "add_currency code p =
     (let c = upper code
      in if map_of (wallets p) c \<noteq> None then Inl (ValueError (WalletExists c))
         else Inr (p\<lparr>wallets := AList.update c (Wallet_init c 0) (wallets p)\<rparr>))"

definition get_wallet :: "string \<Rightarrow> 'n portfolio \<Rightarrow> 'n wallet option" where
  "get_wallet code p = map_of (wallets p) (upper code)"

definition Portfolio_to_dict :: "'n portfolio \<Rightarrow> 'n portfolio_dict" where
  "Portfolio_to_dict p =
     \<lparr>d_user_id = user_id p,
      d_wallets = map (\<lambda>(currency, w). (currency, Wallet_to_dict w)) (wallets p)\<rparr>"

definition Portfolio_from_dict :: "'n portfolio_dict \<Rightarrow> 'n portfolio" where
  "Portfolio_from_dict d =
     Portfolio_init (d_user_id d)
       (Some (map (\<lambda>(currency, wd). (currency, Wallet_from_dict wd)) (d_wallets d)))"

subsection \<open>Currency registry (core/currencies.py)\<close>

text \<open>
  A registered currency, with its name and code. The issuing country, the algorithm and
  the market capitalisation of the source's subclasses play no part in the lookup and
  are left out.
\<close>

datatype currency = FiatCurrency string string | CryptoCurrency string string

text \<open>
  \<^verbatim>\<open>_CURRENCY_REGISTRY\<close> after \<^verbatim>\<open>_initialize_currencies()\<close> has run at import time: each of
  the nine constant entries passes the validation of \<^verbatim>\<open>Currency.__init__\<close>.
\<close>

definition CURRENCY_REGISTRY :: "(string \<times> currency) list" where
  "CURRENCY_REGISTRY =
     [(''USD'', FiatCurrency ''US Dollar'' ''USD''),
      (''EUR'', FiatCurrency ''Euro'' ''EUR''),
      (''RUB'', FiatCurrency ''Russian Ruble'' ''RUB''),
      (''GBP'', FiatCurrency ''British Pound'' ''GBP''),
      (''JPY'', FiatCurrency ''Japanese Yen'' ''JPY''),
      (''BTC'', CryptoCurrency ''Bitcoin'' ''BTC''),
      (''ETH'', CryptoCurrency ''Ethereum'' ''ETH''),
      (''LTC'', CryptoCurrency ''Litecoin'' ''LTC''),
      (''ADA'', CryptoCurrency ''Cardano'' ''ADA'')]"

definition get_currency :: "string \<Rightarrow> exn + currency" where
  "get_currency code =
     (let c = upper code
      in case map_of CURRENCY_REGISTRY c of
           None \<Rightarrow> Inl (CurrencyNotFoundError c)
         | Some cur \<Rightarrow> Inr cur)"

subsection \<open>Portfolio valuation (core/models.py)\<close>

definition demo_rates :: "(string \<times> real) list" where
  "demo_rates =
     [(''BTC_USD'', 59337.21),
      (''EUR_USD'', 1.0786),
      (''RUB_USD'', 0.01016),
      (''ETH_USD'', 3720.00)]"

text \<open>
  The loop of \<^verbatim>\<open>Portfolio.get_total_value\<close> over \<^verbatim>\<open>self._wallets.items()\<close>, with the running
  \<^verbatim>\<open>total_value\<close>. An entry of \<^verbatim>\<open>exchange_rates\<close> is itself a dictionary, read at the
  key \<^verbatim>\<open>"rate"\<close>; a missing key raises \<^verbatim>\<open>KeyError\<close>.
\<close>

fun total_value_loop ::
  "string \<Rightarrow> (string \<times> (string \<times> real) list) list \<Rightarrow> (string \<times> real wallet) list
     \<Rightarrow> real \<Rightarrow> exn + real" where
  "total_value_loop base_currency exchange_rates [] total_value = Inr total_value"
| "total_value_loop base_currency exchange_rates ((code, w) # rest) total_value =
     (if code = base_currency
      then total_value_loop base_currency exchange_rates rest (total_value + balance w)
      else
        (let rate_key = code @ ''_'' @ base_currency
         in case map_of exchange_rates rate_key of
              Some entry \<Rightarrow>
                (case map_of entry ''rate'' of
                   None \<Rightarrow> Inl (KeyError ''rate'')
                 | Some rate \<Rightarrow>
                     total_value_loop base_currency exchange_rates rest
                       (total_value + balance w * rate))
            | None \<Rightarrow>
                (case map_of demo_rates rate_key of
                   Some demo \<Rightarrow>
                     total_value_loop base_currency exchange_rates rest
                       (total_value + balance w * demo)
                 | None \<Rightarrow>
                     total_value_loop base_currency exchange_rates rest total_value)))"

definition get_total_value ::
  "real portfolio \<Rightarrow> string \<Rightarrow> (string \<times> (string \<times> real) list) list option
     \<Rightarrow> exn + real" where
  "get_total_value p base_currency exchange_rates =
     total_value_loop base_currency
       (case exchange_rates of None \<Rightarrow> [] | Some m \<Rightarrow> m) (wallets p) 0"

subsection \<open>Persistence and the portfolio manager (core/usecases.py)\<close>

text \<open>
  Modelled from the spec: \<^verbatim>\<open>DataManager.load_json\<close> and \<^verbatim>\<open>DataManager.save_json\<close> of
  \<^verbatim>\<open>core/utils.py\<close>, which is not among the sources. The specification describes an opaque
  document store with load-with-default and whole-document save: the state holds the
  content of \<^verbatim>\<open>portfolios.json\<close> (the default \<open>[]\<close> when nothing was saved), loading returns
  it and saving replaces it. \<open>stdout\<close> collects what \<^verbatim>\<open>print\<close> wrote.
\<close>

record 'n world =
  portfolios_json :: "'n portfolio_dict list"
  stdout :: "string list"

text \<open>
  Modelled from the spec: \<^verbatim>\<open>validate_amount\<close> of \<^verbatim>\<open>core/utils.py\<close>, not among the sources;
  the specification gives the precondition \<^verbatim>\<open>amount > 0\<close> of buy and sell.
\<close>

definition validate_amount :: "'n::{zero,ord} \<Rightarrow> bool" where
  "validate_amount amount \<longleftrightarrow> amount > 0"

text \<open>
  The loop of \<^verbatim>\<open>_save_portfolio\<close>: the first entry with the portfolio's user id is
  replaced (and the loop breaks); the flag is \<^verbatim>\<open>found\<close>.
\<close>

fun replace_portfolio ::
  "'n portfolio \<Rightarrow> 'n portfolio_dict list \<Rightarrow> 'n portfolio_dict list \<times> bool" where
  "replace_portfolio p [] = ([], False)"
| "replace_portfolio p (pd # rest) =
     (if d_user_id pd = user_id p then (Portfolio_to_dict p # rest, True)
      else (case replace_portfolio p rest of (rest', found) \<Rightarrow> (pd # rest', found)))"

definition save_portfolio :: "'n portfolio \<Rightarrow> 'n world \<Rightarrow> 'n world" where
  "save_portfolio p st =
     (case replace_portfolio p (portfolios_json st) of
        (portfolios_data, found) \<Rightarrow>
          st\<lparr>portfolios_json :=
               (if found then portfolios_data else portfolios_data @ [Portfolio_to_dict p])\<rparr>)"

definition get_user_portfolio :: "int \<Rightarrow> 'n world \<Rightarrow> 'n portfolio \<times> 'n world" where
  "get_user_portfolio uid st =
     (case find (\<lambda>pd. d_user_id pd = uid) (portfolios_json st) of
        Some pd \<Rightarrow> (Portfolio_from_dict pd, st)
      | None \<Rightarrow> (let p = Portfolio_init uid None in (p, save_portfolio p st)))"

text \<open>
  \<^verbatim>\<open>get_wallet\<close> returns the wallet object held in \<^verbatim>\<open>_wallets\<close>, so a deposit or withdrawal
  on it is seen through the portfolio: the changed wallet is stored back at the key it
  was read from.
\<close>

definition put_wallet :: "string \<Rightarrow> 'n wallet \<Rightarrow> 'n portfolio \<Rightarrow> 'n portfolio" where
  "put_wallet code w p = p\<lparr>wallets := AList.update (upper code) w (wallets p)\<rparr>"

text \<open>The dictionaries returned by \<^verbatim>\<open>buy_currency\<close> and \<^verbatim>\<open>sell_currency\<close>.\<close>

record 'n buy_result =
  res_currency :: string
  res_amount :: 'n
  res_rate :: "'n option"
  res_estimated_cost :: "'n option"
  res_old_balance :: 'n
  res_new_balance :: 'n

record 'n sell_result =
  sold_currency :: string
  sold_amount :: 'n
  sold_rate :: "'n option"
  sold_estimated_revenue :: "'n option"
  sold_old_balance :: 'n
  sold_new_balance :: 'n

text \<open>
  \<^verbatim>\<open>ExchangeRateService.get_rate\<close> (\<^verbatim>\<open>core/utils.py\<close>, not among the sources) is the
  parameter \<open>get_rate\<close>: a rate, or \<open>None\<close> when it has none.
\<close>

definition buy_currency ::
  "(string \<Rightarrow> string \<Rightarrow> 'n option) \<Rightarrow> int \<Rightarrow> string \<Rightarrow> 'n::{zero,plus,ord} \<Rightarrow> 'n world
     \<Rightarrow> (exn + 'n buy_result) \<times> 'n world" where
  "buy_currency get_rate uid code amount st =
     (if \<not> validate_amount amount then (Inl (ValueError AmountNotPositive), st)
      else
        (case get_user_portfolio uid st of
           (p, st1) \<Rightarrow>
             (let c = upper code
              in case (if map_of (wallets p) c = None then add_currency c p else Inr p) of
                   Inl e \<Rightarrow> (Inl e, st1)
                 | Inr p1 \<Rightarrow>
                     (case get_wallet c p1 of
                        None \<Rightarrow> (Inl AttributeError, st1)
                      | Some w \<Rightarrow>
                          (let old_balance = balance w
                           in case deposit amount w of
                                Inl e \<Rightarrow> (Inl e, st1)
                              | Inr w1 \<Rightarrow>
                                  (let p2 = put_wallet c w1 p1;
                                       st2 = save_portfolio p2 st1;
                                       rate = get_rate c ''USD'';
                                       estimated_cost = None
                                   in (Inr \<lparr>res_currency = c, res_amount = amount,
                                             res_rate = rate,
                                             res_estimated_cost = estimated_cost,
                                             res_old_balance = old_balance,
                                             res_new_balance = balance w1\<rparr>,
                                       st2)))))))"

text \<open>
  \<^verbatim>\<open>if not wallet\<close> is true for \<^verbatim>\<open>None\<close> only (a \<^verbatim>\<open>Wallet\<close> object is truthy); \<^verbatim>\<open>if rate\<close> is
  false for \<^verbatim>\<open>None\<close> and for \<^verbatim>\<open>0.0\<close>.
\<close>

definition sell_currency ::
  "(string \<Rightarrow> string \<Rightarrow> 'n option) \<Rightarrow> int \<Rightarrow> string \<Rightarrow> 'n::{zero,minus,times,ord} \<Rightarrow> 'n world
     \<Rightarrow> (exn + 'n sell_result) \<times> 'n world" where
  "sell_currency get_rate uid code amount st =
     (if \<not> validate_amount amount then (Inl (ValueError AmountNotPositive), st)
      else
        (case get_user_portfolio uid st of
           (p, st1) \<Rightarrow>
             (let c = upper code
              in case get_wallet c p of
                   None \<Rightarrow> (Inl (ValueError (NoWallet c)), st1)
                 | Some w \<Rightarrow>
                     (let old_balance = balance w
                      in case withdraw amount w of
                           (printed, r) \<Rightarrow>
                             (let st2 = st1\<lparr>stdout := stdout st1 @ printed\<rparr>
                              in case r of
                                   Inl e \<Rightarrow> (Inl e, st2)
                                 | Inr w1 \<Rightarrow>
                                     (let p1 = put_wallet c w1 p;
                                          st3 = save_portfolio p1 st2;
                                          rate = get_rate c ''USD'';
                                          estimated_revenue =
                                            (case rate of
                                               None \<Rightarrow> None
                                             | Some r \<Rightarrow>
                                                 if r \<noteq> 0 then Some (amount * r) else None)
                                      in (Inr \<lparr>sold_currency = c, sold_amount = amount,
                                                sold_rate = rate,
                                                sold_estimated_revenue = estimated_revenue,
                                                sold_old_balance = old_balance,
                                                sold_new_balance = balance w1\<rparr>,
                                          st3)))))))"

text \<open>
  The balance that the persisted document holds for a user and a currency code: the
  wallet that \<^verbatim>\<open>get_user_portfolio\<close> followed by \<^verbatim>\<open>get_wallet\<close> would read, without the
  bootstrap of a missing portfolio.
\<close>

definition stored_balance :: "'n world \<Rightarrow> int \<Rightarrow> string \<Rightarrow> 'n option" where
  "stored_balance st uid code =
     (case find (\<lambda>pd. d_user_id pd = uid) (portfolios_json st) of
        None \<Rightarrow> None
      | Some pd \<Rightarrow> map_option balance (get_wallet code (Portfolio_from_dict pd)))"

subsection \<open>Provider clients (parser_service/api_clients.py)\<close>

datatype log_level = INFO | WARNING | ERROR

text \<open>The log messages of the parser service, named after what they report.\<close>

datatype log_message =
    UpdateStarted
  | UnknownSource string
  | UpdatedFrom string nat
  | UpdateFailed string api_reason
  | UpdateFinished nat
  | NothingUpdated
  | FetchingFiatRates
  | ApiKeyNotConfigured
  | FiatRatesFetched nat
  | FiatRatesFailed
  | RequestFailed string
  | JsonParseFailed string

type_synonym log_record = "log_level \<times> log_message"

type_synonym rates = "(string \<times> real) list"

text \<open>
  The fields of \<^verbatim>\<open>ParserConfig\<close> (\<^verbatim>\<open>parser_service/config.py\<close>, not among the sources) that
  \<^verbatim>\<open>ExchangeRateApiClient\<close> reads; their values are parameters.
\<close>

record parser_config =
  EXCHANGERATE_API_KEY :: "string option"
  EXCHANGERATE_API_URL :: string
  BASE_CURRENCY :: string
  FIAT_CURRENCIES :: "string list"

text \<open>
  What \<^verbatim>\<open>requests.get(url)\<close>, \<^verbatim>\<open>raise_for_status()\<close> and \<^verbatim>\<open>json()\<close> come to for a URL: a
  request exception, a body that is not JSON, or the decoded body. The decoded body is a
  JSON object or some other JSON value (a list, a string, a number, \<^verbatim>\<open>null\<close>). Of an object
  the client reads the keys \<^verbatim>\<open>result\<close>, \<^verbatim>\<open>error-type\<close> and \<^verbatim>\<open>conversion_rates\<close>, each possibly
  missing; \<^verbatim>\<open>conversion_rates\<close>, when present, is taken to be an object of numbers, as the
  provider sends it.
\<close>

record exchangerate_answer =
  j_result :: "string option"
  j_error_type :: "string option"
  j_conversion_rates :: "rates option"

datatype json_body = JsonObject exchangerate_answer | JsonOther

datatype http_outcome =
    RequestException string
  | JsonValueError string
  | Json json_body

text \<open>
  A call of \<^verbatim>\<open>fetch_rates\<close> is described by the records it logs and by what it returns
  or raises. \<^verbatim>\<open>run_update\<close> takes each client as such a result, which covers
  \<^verbatim>\<open>CoinGeckoClient\<close> whatever its request comes to.
\<close>

type_synonym fetch_result = "log_record list \<times> (exn + rates)"

definition make_request ::
  "(string \<Rightarrow> http_outcome) \<Rightarrow> string \<Rightarrow> log_record list \<times> (exn + json_body)" where
  "make_request http url =
     (case http url of
        RequestException e \<Rightarrow>
          ([(ERROR, RequestFailed e)], Inl (ApiRequestError (NetworkError e)))
      | JsonValueError e \<Rightarrow>
          ([(ERROR, JsonParseFailed e)], Inl (ApiRequestError (BadResponseFormat e)))
      | Json data \<Rightarrow> ([], Inr data))"

text \<open>The loop over \<^verbatim>\<open>FIAT_CURRENCIES\<close> that fills \<^verbatim>\<open>rates\<close>.\<close>

fun fiat_rates_loop :: "string \<Rightarrow> rates \<Rightarrow> string list \<Rightarrow> rates \<Rightarrow> rates" where
  "fiat_rates_loop base conversion_rates [] rates = rates"
| "fiat_rates_loop base conversion_rates (cur # rest) rates =
     (case map_of conversion_rates cur of
        Some v \<Rightarrow>
          fiat_rates_loop base conversion_rates rest (AList.update (cur @ ''_'' @ base) v rates)
      | None \<Rightarrow> fiat_rates_loop base conversion_rates rest rates)"

text \<open>
  \<^verbatim>\<open>ExchangeRateApiClient.fetch_rates\<close>. \<^verbatim>\<open>not self.config.EXCHANGERATE_API_KEY\<close> holds for
  \<^verbatim>\<open>None\<close> and for the empty string. An \<^verbatim>\<open>ApiRequestError\<close> raised inside the \<^verbatim>\<open>try\<close> block,
  by the request or for an unsuccessful answer, is logged and raised again. On a body
  that is not an object \<^verbatim>\<open>data.get\<close> raises \<^verbatim>\<open>AttributeError\<close>, which the \<^verbatim>\<open>except\<close> clause does
  not catch.
\<close>

definition ExchangeRateApiClient_fetch_rates ::
  "parser_config \<Rightarrow> (string \<Rightarrow> http_outcome) \<Rightarrow> fetch_result" where
  "ExchangeRateApiClient_fetch_rates config http =
     (case (case EXCHANGERATE_API_KEY config of
              None \<Rightarrow> None
            | Some k \<Rightarrow> if k = [] then None else Some k) of
        None \<Rightarrow> ([(INFO, FetchingFiatRates), (WARNING, ApiKeyNotConfigured)], Inr [])
      | Some key \<Rightarrow>
          (let url = EXCHANGERATE_API_URL config @ ''/'' @ key @ ''/latest/''
                       @ BASE_CURRENCY config
           in case make_request http url of
                (request_log, Inl e) \<Rightarrow>
                  ((INFO, FetchingFiatRates) # request_log @ [(ERROR, FiatRatesFailed)], Inl e)
              | (request_log, Inr JsonOther) \<Rightarrow>
                  ((INFO, FetchingFiatRates) # request_log, Inl AttributeError)
              | (request_log, Inr (JsonObject data)) \<Rightarrow>
                  if j_result data \<noteq> Some ''success''
                  then ((INFO, FetchingFiatRates) # request_log @ [(ERROR, FiatRatesFailed)],
                        Inl (ApiRequestError (ApiError (j_error_type data))))
                  else
                    (let conversion_rates =
                           (case j_conversion_rates data of None \<Rightarrow> [] | Some m \<Rightarrow> m);
                         rates = fiat_rates_loop (BASE_CURRENCY config) conversion_rates
                                   (FIAT_CURRENCIES config) []
                     in ((INFO, FetchingFiatRates) # request_log
                           @ [(INFO, FiatRatesFetched (length rates))],
                         Inr rates))))"

subsection \<open>Rates updater (parser_service/updater.py)\<close>

text \<open>
  Modelled from the spec: \<^verbatim>\<open>RatesStorage\<close> of \<^verbatim>\<open>parser_service/storage.py\<close>, which is not among
  the sources. The specification gives \<^verbatim>\<open>append_history\<close> and \<^verbatim>\<open>save_current\<close> as operations
  that return nothing; they are taken to return normally. The updater calls only these
  two methods, so the state records the calls, in order, with their arguments:
  \<^verbatim>\<open>save_historical_record(from, to, rate, source, meta)\<close>, where \<open>meta\<close> is the pair of
  \<^verbatim>\<open>request_ms\<close> and \<^verbatim>\<open>status_code\<close>, and \<^verbatim>\<open>save_current_rates(rates, source)\<close>, the write of the
  current-rates snapshot.
\<close>

datatype storage_call =
    SaveHistoricalRecord string string real string "nat \<times> nat"
  | SaveCurrentRates rates string

record updater_state =
  logged :: "log_record list"
  storage_calls :: "storage_call list"

definition log_to :: "log_level \<Rightarrow> log_message \<Rightarrow> updater_state \<Rightarrow> updater_state" where
  "log_to level msg st = st\<lparr>logged := logged st @ [(level, msg)]\<rparr>"

text \<open>\<^verbatim>\<open>str.split(sep)\<close> for a one-character separator: the pieces between the separators.\<close>

fun split_on :: "char \<Rightarrow> string \<Rightarrow> string list" where
  "split_on sep [] = [[]]"
| "split_on sep (c # cs) =
     (if c = sep then [] # split_on sep cs
      else (case split_on sep cs of
              [] \<Rightarrow> [[c]]
            | piece # pieces \<Rightarrow> (c # piece) # pieces))"

text \<open>\<^verbatim>\<open>dict.update\<close>: the items of the argument are stored one by one.\<close>

definition dict_update :: "rates \<Rightarrow> rates \<Rightarrow> rates" where
  "dict_update d other = fold (\<lambda>(k, v). AList.update k v) other d"

text \<open>
  The inner loop of \<^verbatim>\<open>run_update\<close> over \<^verbatim>\<open>rates.items()\<close>. Unpacking \<^verbatim>\<open>pair.split('_')\<close> into
  two names raises \<^verbatim>\<open>ValueError\<close> unless there are exactly two pieces; the records saved
  before that stay saved.
\<close>

fun save_history :: "string \<Rightarrow> rates \<Rightarrow> storage_call list \<Rightarrow> (exn + unit) \<times> storage_call list" where
  "save_history client_name [] calls = (Inr (), calls)"
| "save_history client_name ((pair, rate) # rest) calls =
     (case split_on CHR ''_'' pair of
        [from_currency, to_currency] \<Rightarrow>
          save_history client_name rest
            (calls @ [SaveHistoricalRecord from_currency to_currency rate (upper client_name)
                        (0, 200)])
      | _ \<Rightarrow> (Inl (ValueError UnpackError), calls))"

text \<open>
  The loop of \<^verbatim>\<open>run_update\<close> over \<^verbatim>\<open>sources_to_update\<close>, with the accumulated \<^verbatim>\<open>all_rates\<close>.
  Only \<^verbatim>\<open>ApiRequestError\<close> is caught; any other exception leaves \<^verbatim>\<open>run_update\<close>.
\<close>

fun update_loop ::
  "(string \<times> fetch_result) list \<Rightarrow> string list \<Rightarrow> rates \<Rightarrow> updater_state
     \<Rightarrow> (exn + rates) \<times> updater_state" where
  "update_loop clients [] all_rates st = (Inr all_rates, st)"
| "update_loop clients (client_name # rest) all_rates st =
     (case map_of clients client_name of
        None \<Rightarrow>
          update_loop clients rest all_rates (log_to WARNING (UnknownSource client_name) st)
      | Some (client_log, outcome) \<Rightarrow>
          (let st1 = st\<lparr>logged := logged st @ client_log\<rparr>
           in case outcome of
                Inl e \<Rightarrow>
                  (case e of
                     ApiRequestError reason \<Rightarrow>
                       update_loop clients rest all_rates
                         (log_to ERROR (UpdateFailed client_name reason) st1)
                   | _ \<Rightarrow> (Inl e, st1))
              | Inr rates \<Rightarrow>
                  (let all_rates1 = dict_update all_rates rates
                   in case save_history client_name rates (storage_calls st1) of
                        (Inl e, calls) \<Rightarrow> (Inl e, st1\<lparr>storage_calls := calls\<rparr>)
                      | (Inr u, calls) \<Rightarrow>
                          update_loop clients rest all_rates1
                            (log_to INFO (UpdatedFrom client_name (length rates))
                               (st1\<lparr>storage_calls := calls\<rparr>)))))"

text \<open>
  \<^verbatim>\<open>[source] if source else list(self.clients.keys())\<close>: no source and the empty string both
  select every client.
\<close>

definition sources_to_update :: "(string \<times> fetch_result) list \<Rightarrow> string option \<Rightarrow> string list" where
  "sources_to_update clients source =
     (case source of
        None \<Rightarrow> map fst clients
      | Some s \<Rightarrow> if s = [] then map fst clients else [s])"

text \<open>
  \<^verbatim>\<open>RatesUpdater.run_update\<close>. \<open>clients\<close> is \<^verbatim>\<open>self.clients\<close>, each client given by the result of
  its one call of \<^verbatim>\<open>fetch_rates\<close>.
\<close>

definition run_update ::
  "(string \<times> fetch_result) list \<Rightarrow> string option \<Rightarrow> updater_state
     \<Rightarrow> (exn + rates) \<times> updater_state" where
  "run_update clients source st =
     (let st0 = log_to INFO UpdateStarted st
      in case update_loop clients (sources_to_update clients source) [] st0 of
           (Inl e, st1) \<Rightarrow> (Inl e, st1)
         | (Inr all_rates, st1) \<Rightarrow>
             if all_rates \<noteq> []
             then (Inr all_rates,
                   log_to INFO (UpdateFinished (length all_rates))
                     (st1\<lparr>storage_calls :=
                            storage_calls st1 @ [SaveCurrentRates all_rates ''ParserService'']\<rparr>))
             else (Inr all_rates, log_to WARNING NothingUpdated st1))"

text \<open>
  A source that adds nothing to \<^verbatim>\<open>all_rates\<close>: its name is not in \<^verbatim>\<open>self.clients\<close>, or its
  \<^verbatim>\<open>fetch_rates\<close> raises \<^verbatim>\<open>ApiRequestError\<close>, or it returns an empty mapping.
\<close>

fun adds_nothing :: "fetch_result option \<Rightarrow> bool" where
  "adds_nothing None = True"
| "adds_nothing (Some (client_log, Inl (ApiRequestError reason))) = True"
| "adds_nothing (Some (client_log, Inl e)) = False"
| "adds_nothing (Some (client_log, Inr rates)) = (rates = [])"

text \<open>
  The historical records that \<^verbatim>\<open>run_update\<close> saves for the pairs of one source, when each
  pair splits into two names.
\<close>

definition history_of :: "string \<Rightarrow> rates \<Rightarrow> storage_call list" where
  "history_of client_name rates =
     map (\<lambda>(pair, rate).
            SaveHistoricalRecord (split_on CHR ''_'' pair ! 0) (split_on CHR ''_'' pair ! 1)
              rate (upper client_name) (0, 200))
       rates"

subsection \<open>Concrete states used in the examples\<close>

definition no_portfolios :: "'n world" where
  "no_portfolios = \<lparr>portfolios_json = [], stdout = []\<rparr>"

text \<open>A rate service that knows no rate.\<close>

definition no_rates :: "string \<Rightarrow> string \<Rightarrow> 'n option" where
  "no_rates from_currency to_currency = None"

text \<open>User 1 holds a single wallet of 2 BTC.\<close>

definition two_btc :: "real world" where
  "two_btc =
     \<lparr>portfolios_json =
        [\<lparr>d_user_id = 1, d_wallets = [(''BTC'', \<lparr>d_currency_code = ''BTC'', d_balance = 2\<rparr>)]\<rparr>],
      stdout = []\<rparr>"

text \<open>An updater that has logged nothing and called the storage never.\<close>

definition fresh_updater :: updater_state where
  "fresh_updater = \<lparr>logged = [], storage_calls = []\<rparr>"

definition three_fiat_rates :: rates where
  "three_fiat_rates = [(''EUR_USD'', 1.08), (''GBP_USD'', 1.27), (''RUB_USD'', 0.011)]"

text \<open>Two calls of \<^verbatim>\<open>fetch_rates\<close> that raise \<^verbatim>\<open>ApiRequestError\<close>.\<close>

definition timed_out :: fetch_result where
  "timed_out =
     ([(ERROR, RequestFailed ''timeout'')], Inl (ApiRequestError (NetworkError ''timeout'')))"

definition quota_reached :: fetch_result where
  "quota_reached =
     ([(ERROR, FiatRatesFailed)], Inl (ApiRequestError (ApiError (Some ''quota-reached''))))"

definition no_key_config :: parser_config where
  "no_key_config =
     \<lparr>EXCHANGERATE_API_KEY = None,
      EXCHANGERATE_API_URL = ''https://v6.exchangerate-api.com/v6'',
      BASE_CURRENCY = ''USD'',
      FIAT_CURRENCIES = [''EUR'', ''GBP'', ''RUB'']\<rparr>"

section \<open>Properties\<close>

subsection \<open>Unfolding and basic facts\<close>

lemmas string_defs = upper_def upper_char_def

lemmas wallet_defs = Wallet_init_def Wallet_from_dict_def Wallet_to_dict_def balance_setter_def
  deposit_def withdraw_def

lemmas portfolio_defs = Portfolio_init_def Portfolio_from_dict_def Portfolio_to_dict_def
  add_currency_def get_wallet_def put_wallet_def

lemmas manager_defs = validate_amount_def get_user_portfolio_def save_portfolio_def
  buy_currency_def sell_currency_def stored_balance_def

lemma upper_char_idem: "upper_char (upper_char c) = upper_char c"
  by (simp add: upper_char_def)

lemma upper_idem: "upper (upper s) = upper s"
  by (simp add: upper_def upper_char_idem)

lemma Wallet_from_to_dict: "Wallet_from_dict (Wallet_to_dict w) = w"
  by (simp add: Wallet_from_dict_def Wallet_to_dict_def Wallet_init_def)

lemma Portfolio_from_to_dict: "Portfolio_from_dict (Portfolio_to_dict p) = p"
  by (simp add: Portfolio_from_dict_def Portfolio_to_dict_def Portfolio_init_def
        Wallet_from_to_dict comp_def case_prod_unfold)

subsection \<open>Saving and loading a portfolio\<close>

lemma find_replace_portfolio:
  "find (\<lambda>pd. d_user_id pd = user_id p)
     (if snd (replace_portfolio p pds) then fst (replace_portfolio p pds)
      else fst (replace_portfolio p pds) @ [Portfolio_to_dict p])
   = Some (Portfolio_to_dict p)"
  by (induction pds) (auto simp: Portfolio_to_dict_def split: prod.splits)

lemma find_save_portfolio:
  "find (\<lambda>pd. d_user_id pd = user_id p) (portfolios_json (save_portfolio p st))
     = Some (Portfolio_to_dict p)"
  using find_replace_portfolio [of p "portfolios_json st"]
  by (auto simp: save_portfolio_def split: prod.splits)

lemma stdout_save_portfolio: "stdout (save_portfolio p st) = stdout st"
  by (simp add: save_portfolio_def split: prod.splits)

lemma get_user_portfolio_after_save:
  "get_user_portfolio (user_id p) (save_portfolio p st) = (p, save_portfolio p st)"
  by (simp add: get_user_portfolio_def find_save_portfolio Portfolio_from_to_dict)

lemma stored_balance_after_save:
  "stored_balance (save_portfolio p st) (user_id p) code = map_option balance (get_wallet code p)"
  by (simp add: stored_balance_def find_save_portfolio Portfolio_from_to_dict)

lemma get_user_portfolio_user_id:
  "get_user_portfolio uid st = (p, st1) \<Longrightarrow> user_id p = uid"
  by (auto simp: get_user_portfolio_def Portfolio_from_dict_def Portfolio_init_def Let_def
        find_Some_iff split: option.splits)

lemma get_user_portfolio_stored_balance:
  "get_user_portfolio uid st = (p, st1) \<Longrightarrow>
     map_option balance (get_wallet code p) = stored_balance st uid code"
  by (auto simp: get_user_portfolio_def stored_balance_def Portfolio_init_def get_wallet_def
        Let_def split: option.splits)

subsection \<open>Wallet construction and the balance invariant\<close>

text \<open>
  Claim C9. Only the balance setter checks that a balance is not negative. The constructor
  of \<^verbatim>\<open>Wallet\<close> and \<^verbatim>\<open>Wallet.from_dict\<close> store the balance they are given: for every negative
  number they return a wallet with that negative balance, and loading a persisted
  portfolio that holds such a wallet returns it as it is, while the setter refuses the
  same value with \<^verbatim>\<open>ValueError\<close>.
\<close>

theorem negative_balance_only_checked_by_setter:
  assumes "(b::real) < 0"
  shows "balance (Wallet_init code b) = b
       \<and> balance (Wallet_from_dict \<lparr>d_currency_code = code, d_balance = b\<rparr>) = b
       \<and> get_user_portfolio uid
           \<lparr>portfolios_json =
              \<lparr>d_user_id = uid,
               d_wallets = [(code, \<lparr>d_currency_code = code, d_balance = b\<rparr>)]\<rparr> # others,
            stdout = out\<rparr>
         = (\<lparr>user_id = uid, wallets = [(code, \<lparr>currency_code = code, balance = b\<rparr>)]\<rparr>,
            \<lparr>portfolios_json =
               \<lparr>d_user_id = uid,
                d_wallets = [(code, \<lparr>d_currency_code = code, d_balance = b\<rparr>)]\<rparr> # others,
             stdout = out\<rparr>)
       \<and> balance_setter b w = Inl (ValueError NegativeBalance)"
  using assms by (simp add: wallet_defs portfolio_defs get_user_portfolio_def)

theorem negative_balance_only_checked_by_setter_witness:
  "(-5 :: real) < 0
   \<and> balance (Wallet_init ''BTC'' (-5 :: real)) = -5
   \<and> balance (Wallet_from_dict \<lparr>d_currency_code = ''BTC'', d_balance = -5 :: real\<rparr>) = -5
   \<and> balance_setter (-5 :: real) (Wallet_init ''BTC'' 0) = Inl (ValueError NegativeBalance)"
  using negative_balance_only_checked_by_setter
          [of "-5" "''BTC''" 1 "[]" "[]" "Wallet_init ''BTC'' 0"]
  by simp

subsection \<open>Buying and selling\<close>

text \<open>
  Claim C7. For every amount that is zero or negative, \<^verbatim>\<open>buy_currency\<close> and \<^verbatim>\<open>sell_currency\<close>
  raise the \<^verbatim>\<open>ValueError\<close> for a non-positive amount before anything else happens: the
  state they leave is the state they were given, so no portfolio was created, no wallet
  added, no balance changed and nothing saved.
\<close>

theorem nonpositive_amount_rejected_before_any_mutation:
  assumes "(amount::real) \<le> 0"
  shows "buy_currency get_rate uid code amount st = (Inl (ValueError AmountNotPositive), st)
       \<and> sell_currency get_rate uid code amount st = (Inl (ValueError AmountNotPositive), st)"
  using assms by (simp add: buy_currency_def sell_currency_def validate_amount_def)

theorem nonpositive_amount_rejected_before_any_mutation_witness:
  "(0 :: real) \<le> 0
   \<and> buy_currency (\<lambda>f t. None) 1 ''BTC'' (0 :: real) no_portfolios
       = (Inl (ValueError AmountNotPositive), no_portfolios)
   \<and> sell_currency (\<lambda>f t. None) 1 ''BTC'' (0 :: real) no_portfolios
       = (Inl (ValueError AmountNotPositive), no_portfolios)"
  using nonpositive_amount_rejected_before_any_mutation
          [of 0 "\<lambda>f t. None" 1 "''BTC''" no_portfolios]
  by simp

text \<open>Selling more than the wallet holds, for any wallet and amount.\<close>

lemma sell_currency_beyond_balance:
  assumes "(0::real) < amount" and "get_user_portfolio uid st = (p, st0)"
    and "get_wallet code p = Some w" and "balance w < amount"
  shows "sell_currency get_rate uid code amount st
       = (Inl (ValueError NegativeBalance), st0\<lparr>stdout := stdout st0 @ [''error'']\<rparr>)"
  using assms
  by (simp add: sell_currency_def validate_amount_def get_wallet_def
        withdraw_def balance_setter_def upper_idem Let_def)

text \<open>No successful purchase carries an estimated cost.\<close>

lemma buy_currency_estimated_cost_absent:
  "buy_currency get_rate uid code amount st = (Inr bought, st1) \<Longrightarrow>
     res_estimated_cost bought = None"
  by (auto simp: buy_currency_def Let_def split: if_splits prod.splits sum.splits option.splits)

text \<open>
  Claim C1 asks for \<^verbatim>\<open>InsufficientFundsError\<close>, carrying the available and the required
  amount, when more is sold than the wallet holds. With 2 BTC in the wallet, selling 5
  prints \<^verbatim>\<open>error\<close> and then fails in the balance setter with the \<^verbatim>\<open>ValueError\<close> for a negative
  balance; the exception is not \<^verbatim>\<open>InsufficientFundsError\<close>. The persisted balance stays 2.
\<close>

theorem sell_beyond_balance_raises_ValueError:
  "sell_currency get_rate 1 ''BTC'' 5 two_btc
     = (Inl (ValueError NegativeBalance), two_btc\<lparr>stdout := [''error'']\<rparr>)
   \<and> fst (sell_currency get_rate 1 ''BTC'' 5 two_btc) \<noteq> Inl (InsufficientFundsError ''BTC'' 2 5)
   \<and> stored_balance (snd (sell_currency get_rate 1 ''BTC'' 5 two_btc)) 1 ''BTC'' = Some 2"
  by (simp add: two_btc_def manager_defs portfolio_defs wallet_defs string_defs Let_def)

text \<open>
  Claim C2 asks for an estimated cost in the result of \<^verbatim>\<open>buy_currency\<close> whenever the rate
  service has a rate. Buying 0.5 BTC while the service quotes 59337.21 returns that rate
  and no estimated cost.
\<close>

theorem buy_with_rate_has_no_estimated_cost:
  "fst (buy_currency (\<lambda>f t. Some 59337.21) 1 ''BTC'' (0.5 :: real) no_portfolios)
     = Inr \<lparr>res_currency = ''BTC'', res_amount = 0.5, res_rate = Some 59337.21,
            res_estimated_cost = None, res_old_balance = 0, res_new_balance = 0.5\<rparr>"
  by (simp add: no_portfolios_def manager_defs portfolio_defs wallet_defs string_defs Let_def)

text \<open>
  Claim C4 asks \<^verbatim>\<open>buy_currency\<close> and \<^verbatim>\<open>sell_currency\<close> to reject a code that is not in the
  currency registry with \<^verbatim>\<open>CurrencyNotFoundError\<close>. The code \<^verbatim>\<open>XYZ\<close> is not registered
  (\<^verbatim>\<open>get_currency\<close> raises for it), yet buying 1 XYZ succeeds, creates an XYZ wallet and
  saves it.
\<close>

theorem buy_unregistered_currency_succeeds:
  "get_currency ''XYZ'' = Inl (CurrencyNotFoundError ''XYZ'')
   \<and> buy_currency (\<lambda>f t. None) 1 ''XYZ'' (1 :: real) no_portfolios
       = (Inr \<lparr>res_currency = ''XYZ'', res_amount = 1, res_rate = None,
              res_estimated_cost = None, res_old_balance = 0, res_new_balance = 1\<rparr>,
          \<lparr>portfolios_json =
             [\<lparr>d_user_id = 1,
               d_wallets = [(''XYZ'', \<lparr>d_currency_code = ''XYZ'', d_balance = 1\<rparr>)]\<rparr>],
           stdout = []\<rparr>)"
  by (simp add: no_portfolios_def get_currency_def CURRENCY_REGISTRY_def manager_defs
        portfolio_defs wallet_defs string_defs Let_def)


subsection \<open>The round trip over floats\<close>

text \<open>Rounding leaves a multiple of the last place unchanged.\<close>

lemmas pyfloat_ops = zero_pyfloat_def plus_pyfloat_def minus_pyfloat_def times_pyfloat_def
  less_pyfloat_def less_eq_pyfloat_def

lemma round_half_even_of_int: "round_half_even (of_int m) = m"
  by (simp add: round_half_even_def)

lemma exponent_search_found:
  assumes "2 powi k \<le> x" and "x < 2 powi (k + 1)" and "k \<le> k0" and "k0 - k \<le> int n"
  shows "exponent_search n k0 x = k"
  using assms(3,4)
proof (induction n arbitrary: k0)
  case 0
  then show ?case by simp
next
  case (Suc n)
  show ?case
  proof (cases "2 powi k0 \<le> x")
    case True
    with assms(2) have "(2::real) powi k0 < 2 powi (k + 1)" by simp
    then have "k0 < k + 1"
      using power_int_increasing [of "k + 1" k0 "2::real"] by (cases "k0 < k + 1") auto
    with Suc.prems True show ?thesis by simp
  next
    case False
    with assms(1) have "k0 \<noteq> k" by auto
    with Suc.prems have "k \<le> k0 - 1" "k0 - 1 - k \<le> int n" by simp_all
    with Suc.IH False show ?thesis by simp
  qed
qed

lemma ulp_exponent_normal:
  assumes "2 powi k \<le> \<bar>x\<bar>" and "\<bar>x\<bar> < 2 powi (k + 1)" and "- 1022 \<le> k" and "k \<le> 1023"
  shows "ulp_exponent x = k - 52"
  using exponent_search_found [OF assms(1,2), of 1023 2045] assms(3,4)
  by (simp add: ulp_exponent_def)

lemma fround_exact:
  assumes "x = of_int m * 2 powi ulp_exponent x" and "\<bar>x\<bar> < 2 ^ 1024"
  shows "fround x = Finite x"
proof (cases "x = 0")
  case True
  then show ?thesis by (simp add: fround_def)
next
  case False
  have "x / 2 powi ulp_exponent x = of_int m"
    using assms(1) by (metis nonzero_mult_div_cancel_right power_int_eq_0_iff zero_neq_numeral)
  then show ?thesis
    using assms False by (simp add: fround_def Let_def round_half_even_of_int)
qed

lemma is_binary64_half: "is_binary64 (Finite (1 / 2))"
proof -
  have e: "ulp_exponent (1 / 2) = - 53"
    using ulp_exponent_normal [of "- 1" "1 / 2"] by simp
  have "fround (1 / 2) = Finite (1 / 2)"
  proof (rule fround_exact [where m = "2 ^ 52"])
    show "(1 / 2 :: real) = of_int (2 ^ 52) * 2 powi ulp_exponent (1 / 2)"
      by (simp add: e power_int_minus_divide)
    show "\<bar>1 / 2 :: real\<bar> < 2 ^ 1024"
      by (simp add: less_le_trans [of _ 1])
  qed
  then show ?thesis by simp
qed

lemma fround_zero: "fround 0 = Finite 0"
  by (simp add: fround_def)

text \<open>
  Over floats, too, an amount that is not above zero (NaN included) is refused before
  anything is read or written.
\<close>

lemma float_amount_not_positive_rejected:
  assumes "\<not> (0::pyfloat) < amount"
  shows "buy_currency get_rate uid code amount st = (Inl (ValueError AmountNotPositive), st)
       \<and> sell_currency get_rate uid code amount st = (Inl (ValueError AmountNotPositive), st)"
  using assms by (simp add: buy_currency_def sell_currency_def validate_amount_def)

text \<open>Depositing a float into an empty wallet and withdrawing the whole balance are exact.\<close>

lemma deposit_into_zero:
  assumes "0 < a" and "is_binary64 (Finite a)" and "balance w = Finite 0"
  shows "deposit (Finite a) w = Inr (w\<lparr>balance := Finite a\<rparr>)"
  using assms by (simp add: deposit_def balance_setter_def pyfloat_ops)

lemma withdraw_whole_balance:
  assumes "0 < a" and "balance w = Finite a"
  shows "withdraw (Finite a) w = ([], Inr (w\<lparr>balance := Finite 0\<rparr>))"
  using assms by (simp add: withdraw_def balance_setter_def pyfloat_ops fround_zero)

lemma validate_amount_finite: "validate_amount (Finite a) \<longleftrightarrow> 0 < a"
  by (simp add: validate_amount_def pyfloat_ops)

lemma buy_currency_on_empty_wallet:
  assumes pos: "0 < a" and float: "is_binary64 (Finite a)"
    and empty: "stored_balance st uid code = None \<or> stored_balance st uid code = Some (Finite 0)"
  shows "\<exists>p2 st0 w1.
           buy_currency get_rate uid code (Finite a) st
             = (Inr \<lparr>res_currency = upper code, res_amount = Finite a,
                     res_rate = get_rate (upper code) ''USD'', res_estimated_cost = None,
                     res_old_balance = Finite 0, res_new_balance = Finite a\<rparr>,
                save_portfolio p2 st0)
         \<and> user_id p2 = uid \<and> get_wallet code p2 = Some w1 \<and> balance w1 = Finite a"
proof -
  obtain p st0 where gp: "get_user_portfolio uid st = (p, st0)"
    by (cases "get_user_portfolio uid st")
  have uid: "user_id p = uid"
    using gp by (rule get_user_portfolio_user_id)
  have bal: "map_option balance (get_wallet code p) = stored_balance st uid code"
    using gp by (rule get_user_portfolio_stored_balance)
  show ?thesis
  proof (cases "get_wallet code p")
    case None
    let ?w0 = "Wallet_init (upper code) (0::pyfloat)"
    let ?w1 = "?w0\<lparr>balance := Finite a\<rparr>"
    let ?p1 = "p\<lparr>wallets := AList.update (upper code) ?w0 (wallets p)\<rparr>"
    let ?p2 = "put_wallet (upper code) ?w1 ?p1"
    have dep: "deposit (Finite a) ?w0 = Inr ?w1"
      by (rule deposit_into_zero [OF pos float]) (simp add: Wallet_init_def zero_pyfloat_def)
    have w0: "balance ?w0 = Finite 0"
      by (simp add: Wallet_init_def zero_pyfloat_def)
    have buy: "buy_currency get_rate uid code (Finite a) st
             = (Inr \<lparr>res_currency = upper code, res_amount = Finite a,
                     res_rate = get_rate (upper code) ''USD'', res_estimated_cost = None,
                     res_old_balance = Finite 0, res_new_balance = Finite a\<rparr>,
                save_portfolio ?p2 st0)"
      using None pos
      by (simp add: buy_currency_def validate_amount_finite gp get_wallet_def add_currency_def
            upper_idem Let_def update_conv' dep w0)
    have "get_wallet code ?p2 = Some ?w1"
      by (simp add: get_wallet_def put_wallet_def upper_idem update_conv')
    with buy uid show ?thesis
      by (intro exI [of _ ?p2] exI [of _ st0] exI [of _ ?w1]) (simp add: put_wallet_def)
  next
    case (Some w)
    with bal empty have zero: "balance w = Finite 0" by auto
    let ?w1 = "w\<lparr>balance := Finite a\<rparr>"
    let ?p2 = "put_wallet (upper code) ?w1 p"
    have dep: "deposit (Finite a) w = Inr ?w1"
      by (rule deposit_into_zero [OF pos float zero])
    have buy: "buy_currency get_rate uid code (Finite a) st
             = (Inr \<lparr>res_currency = upper code, res_amount = Finite a,
                     res_rate = get_rate (upper code) ''USD'', res_estimated_cost = None,
                     res_old_balance = Finite 0, res_new_balance = Finite a\<rparr>,
                save_portfolio ?p2 st0)"
      using Some pos
      by (simp add: buy_currency_def validate_amount_finite gp get_wallet_def
            upper_idem Let_def dep zero)
    have "get_wallet code ?p2 = Some ?w1"
      by (simp add: get_wallet_def put_wallet_def upper_idem update_conv')
    with buy uid show ?thesis
      by (intro exI [of _ ?p2] exI [of _ st0] exI [of _ ?w1]) (simp add: put_wallet_def)
  qed
qed

lemma sell_currency_whole_balance:
  assumes pos: "0 < a" and gp: "get_user_portfolio uid st = (p, st0)"
    and w: "get_wallet code p = Some w" and bal: "balance w = Finite a"
  shows "\<exists>sold. sell_currency get_rate uid code (Finite a) st
           = (Inr sold, save_portfolio (put_wallet (upper code) (w\<lparr>balance := Finite 0\<rparr>) p) st0)
         \<and> sold_old_balance sold = Finite a \<and> sold_new_balance sold = Finite 0"
  using pos w bal
  by (simp add: sell_currency_def validate_amount_finite gp get_wallet_def upper_idem Let_def
        withdraw_whole_balance [OF pos bal])

text \<open>
  Claim C3, amended. Over Python floats: for every finite positive amount and every user
  whose persisted portfolio has no wallet for the currency (or who has no portfolio at
  all), or a wallet with balance zero, \<^verbatim>\<open>buy_currency\<close> succeeds, reporting the old balance
  \<^verbatim>\<open>0.0\<close> and the new balance \<open>amount\<close>, and \<^verbatim>\<open>sell_currency\<close> of the same amount then succeeds
  and brings the balance, in the result and in the persisted portfolio, back to \<^verbatim>\<open>0.0\<close>,
  its value before the purchase.
\<close>

theorem finite_buy_then_sell_round_trip:
  assumes pos: "0 < a" and float: "is_binary64 (Finite a)"
    and empty: "stored_balance st uid code = None \<or> stored_balance st uid code = Some (Finite 0)"
  shows "\<exists>bought st1 sold st2.
           buy_currency get_rate uid code (Finite a) st = (Inr bought, st1)
         \<and> res_old_balance bought = Finite 0 \<and> res_new_balance bought = Finite a
         \<and> stored_balance st1 uid code = Some (Finite a)
         \<and> sell_currency get_rate uid code (Finite a) st1 = (Inr sold, st2)
         \<and> sold_old_balance sold = Finite a \<and> sold_new_balance sold = Finite 0
         \<and> stored_balance st2 uid code = Some (Finite 0)"
proof -
  from buy_currency_on_empty_wallet [OF pos float empty, of get_rate]
  obtain p2 st0 w1 where
    buy: "buy_currency get_rate uid code (Finite a) st
            = (Inr \<lparr>res_currency = upper code, res_amount = Finite a,
                    res_rate = get_rate (upper code) ''USD'', res_estimated_cost = None,
                    res_old_balance = Finite 0, res_new_balance = Finite a\<rparr>,
               save_portfolio p2 st0)"
    and uid: "user_id p2 = uid" and w1: "get_wallet code p2 = Some w1"
    and bal: "balance w1 = Finite a"
    by blast
  let ?st1 = "save_portfolio p2 st0"
  have gp: "get_user_portfolio uid ?st1 = (p2, ?st1)"
    using get_user_portfolio_after_save [of p2 st0] uid by simp
  have stored1: "stored_balance ?st1 uid code = Some (Finite a)"
    using stored_balance_after_save [of p2 st0 code] uid w1 bal by simp
  let ?p3 = "put_wallet (upper code) (w1\<lparr>balance := Finite 0\<rparr>) p2"
  from sell_currency_whole_balance [OF pos gp w1 bal, of get_rate]
  obtain sold where sell: "sell_currency get_rate uid code (Finite a) ?st1
                             = (Inr sold, save_portfolio ?p3 ?st1)"
    and sold: "sold_old_balance sold = Finite a" "sold_new_balance sold = Finite 0"
    by blast
  have "get_wallet code ?p3 = Some (w1\<lparr>balance := Finite 0\<rparr>)"
    by (simp add: get_wallet_def put_wallet_def upper_idem update_conv')
  moreover have "user_id ?p3 = uid"
    using uid by (simp add: put_wallet_def)
  ultimately have stored2: "stored_balance (save_portfolio ?p3 ?st1) uid code = Some (Finite 0)"
    using stored_balance_after_save [of ?p3 ?st1 code] by simp
  show ?thesis
    using buy stored1 sell sold stored2 by simp
qed

theorem finite_buy_then_sell_round_trip_witness:
  "(0::real) < 1 / 2
   \<and> is_binary64 (Finite (1 / 2))
   \<and> stored_balance (no_portfolios :: pyfloat world) 1 ''btc'' = None
   \<and> fst (buy_currency no_rates 1 ''btc'' (Finite (1 / 2)) no_portfolios)
       = Inr \<lparr>res_currency = ''BTC'', res_amount = Finite (1 / 2), res_rate = None,
              res_estimated_cost = None, res_old_balance = Finite 0,
              res_new_balance = Finite (1 / 2)\<rparr>
   \<and> stored_balance
        (snd (sell_currency no_rates 1 ''btc'' (Finite (1 / 2))
               (snd (buy_currency no_rates 1 ''btc'' (Finite (1 / 2)) no_portfolios))))
        1 ''btc''
       = Some (Finite 0)"
proof -
  have pos: "(0::real) < 1 / 2" by simp
  have h: "stored_balance (no_portfolios :: pyfloat world) 1 ''btc'' = None"
    by (simp add: stored_balance_def no_portfolios_def)
  note round_trip =
    finite_buy_then_sell_round_trip [OF pos is_binary64_half disjI1 [OF h], of no_rates]
  from round_trip have bought:
    "fst (buy_currency no_rates 1 ''btc'' (Finite (1 / 2)) no_portfolios)
       = Inr \<lparr>res_currency = ''BTC'', res_amount = Finite (1 / 2), res_rate = None,
              res_estimated_cost = None, res_old_balance = Finite 0,
              res_new_balance = Finite (1 / 2)\<rparr>"
    by (auto simp: buy_currency_def no_rates_def string_defs Let_def
          split: if_splits prod.splits sum.splits option.splits)
  from round_trip have
    "stored_balance
        (snd (sell_currency no_rates 1 ''btc'' (Finite (1 / 2))
               (snd (buy_currency no_rates 1 ''btc'' (Finite (1 / 2)) no_portfolios))))
        1 ''btc'' = Some (Finite 0)"
    by auto
  with pos is_binary64_half h bought show ?thesis by (intro conjI)
qed

text \<open>
  Claim C3 as stated covers every positive amount, also the float \<^verbatim>\<open>inf\<close>, which \<^verbatim>\<open>float()\<close>
  reads from the command line and \<^verbatim>\<open>amount > 0\<close> lets through. Buying \<^verbatim>\<open>inf\<close> on an empty
  portfolio stores the balance \<^verbatim>\<open>inf\<close>. Selling \<^verbatim>\<open>inf\<close> then passes both tests of
  \<^verbatim>\<open>Wallet.withdraw\<close> and of the setter (\<^verbatim>\<open>inf > inf\<close> is false; \<^verbatim>\<open>inf - inf\<close> is NaN and
  \<^verbatim>\<open>NaN < 0\<close> is false), succeeds, and stores the balance NaN, not \<^verbatim>\<open>0.0\<close>.
\<close>

theorem infinite_buy_then_sell_counterexample:
  "(0::pyfloat) < PosInf
   \<and> stored_balance (no_portfolios :: pyfloat world) 1 ''BTC'' = None
   \<and> fst (buy_currency no_rates 1 ''BTC'' PosInf no_portfolios)
       = Inr \<lparr>res_currency = ''BTC'', res_amount = PosInf, res_rate = None,
              res_estimated_cost = None, res_old_balance = Finite 0,
              res_new_balance = PosInf\<rparr>
   \<and> fst (sell_currency no_rates 1 ''BTC'' PosInf
             (snd (buy_currency no_rates 1 ''BTC'' PosInf no_portfolios)))
       = Inr \<lparr>sold_currency = ''BTC'', sold_amount = PosInf, sold_rate = None,
              sold_estimated_revenue = None, sold_old_balance = PosInf,
              sold_new_balance = NaN\<rparr>
   \<and> stored_balance
        (snd (sell_currency no_rates 1 ''BTC'' PosInf
               (snd (buy_currency no_rates 1 ''BTC'' PosInf no_portfolios))))
        1 ''BTC''
       = Some NaN"
  by (simp add: no_portfolios_def no_rates_def manager_defs portfolio_defs wallet_defs
        string_defs pyfloat_ops Let_def)

subsection \<open>Portfolio valuation\<close>

text \<open>Leaving \<^verbatim>\<open>exchange_rates\<close> out is the same as passing an empty dictionary.\<close>

lemma get_total_value_default:
  "get_total_value p base_currency None = get_total_value p base_currency (Some [])"
  by (simp add: get_total_value_def)

lemma total_value_loop_shift:
  "total_value_loop base rs ws (t + d) = map_sum id (\<lambda>v. v + d) (total_value_loop base rs ws t)"
proof (induction ws arbitrary: t)
  case Nil
  show ?case by simp
next
  case (Cons x ws)
  obtain code w where x: "x = (code, w)" by (cases x)
  have swap: "t + d + y = (t + y) + d" for y by simp
  show ?case
    unfolding x
    by (simp add: Let_def swap Cons.IH split: option.splits)
qed

lemma total_value_loop_append:
  "total_value_loop base rs (xs @ ys) t =
     (case total_value_loop base rs xs t of
        Inl e \<Rightarrow> Inl e
      | Inr t' \<Rightarrow> total_value_loop base rs ys t')"
  by (induction xs arbitrary: t) (auto simp: Let_def split: option.splits)

text \<open>
  Claim C10, amended. Take a wallet whose currency code differs from the base currency
  and whose pair \<^verbatim>\<open>code_base\<close> is absent from \<^verbatim>\<open>exchange_rates\<close>. Then
  \<^verbatim>\<open>Portfolio.get_total_value\<close> values it with the demo rate when the pair is \<^verbatim>\<open>BTC_USD\<close>
  (59337.21), \<^verbatim>\<open>EUR_USD\<close> (1.0786), \<^verbatim>\<open>RUB_USD\<close> (0.01016) or \<^verbatim>\<open>ETH_USD\<close> (3720.00), and it
  adds 0 for any other missing pair: putting the wallet anywhere into the portfolio
  raises the total by exactly that value. The result is a bare number, so nothing in it
  tells that a demo rate or no rate was used.
\<close>

theorem missing_pair_valued_by_demo_rate_or_zero:
  assumes "code \<noteq> base"
    and "map_of exchange_rates (code @ ''_'' @ base) = None"
    and "get_total_value \<lparr>user_id = uid, wallets = before @ after\<rparr> base (Some exchange_rates)
           = Inr v"
  shows "get_total_value \<lparr>user_id = uid, wallets = before @ (code, w) # after\<rparr> base
           (Some exchange_rates)
         = Inr (v + balance w *
                  (if code @ ''_'' @ base = ''BTC_USD'' then 59337.21
                   else if code @ ''_'' @ base = ''EUR_USD'' then 1.0786
                   else if code @ ''_'' @ base = ''RUB_USD'' then 0.01016
                   else if code @ ''_'' @ base = ''ETH_USD'' then 3720.00
                   else 0))"
proof -
  let ?d = "balance w *
              (case map_of demo_rates (code @ ''_'' @ base) of Some demo \<Rightarrow> demo | None \<Rightarrow> 0)"
  obtain t1 where t1: "total_value_loop base exchange_rates before 0 = Inr t1"
    and t2: "total_value_loop base exchange_rates after t1 = Inr v"
    using assms(3)
    by (auto simp: get_total_value_def total_value_loop_append split: sum.splits)
  have "total_value_loop base exchange_rates ((code, w) # after) t1
          = total_value_loop base exchange_rates after (t1 + ?d)"
    using assms(1,2) by (simp add: Let_def split: option.splits)
  also have "\<dots> = Inr (v + ?d)"
    by (simp add: total_value_loop_shift t2)
  finally have "get_total_value \<lparr>user_id = uid, wallets = before @ (code, w) # after\<rparr> base
           (Some exchange_rates) = Inr (v + ?d)"
    by (simp add: get_total_value_def total_value_loop_append t1)
  moreover have "(case map_of demo_rates (code @ ''_'' @ base) of Some demo \<Rightarrow> demo | None \<Rightarrow> 0)
     = (if code @ ''_'' @ base = ''BTC_USD'' then 59337.21
                   else if code @ ''_'' @ base = ''EUR_USD'' then 1.0786
                   else if code @ ''_'' @ base = ''RUB_USD'' then 0.01016
                   else if code @ ''_'' @ base = ''ETH_USD'' then 3720.00
                   else (0::real))"
    by (simp add: demo_rates_def)
  ultimately show ?thesis by simp
qed

theorem missing_pair_valued_by_demo_rate_or_zero_witness:
  "''BTC'' \<noteq> ''USD''
   \<and> map_of ([] :: (string \<times> (string \<times> real) list) list) (''BTC'' @ ''_'' @ ''USD'') = None
   \<and> get_total_value
       \<lparr>user_id = 1, wallets = [(''USD'', \<lparr>currency_code = ''USD'', balance = 100\<rparr>)]\<rparr>
       ''USD'' (Some []) = Inr 100
   \<and> get_total_value
       \<lparr>user_id = 1,
        wallets = [(''USD'', \<lparr>currency_code = ''USD'', balance = 100\<rparr>),
                   (''BTC'', \<lparr>currency_code = ''BTC'', balance = 2\<rparr>)]\<rparr>
       ''USD'' (Some []) = Inr (100 + 2 * 59337.21)"
proof -
  have a: "''BTC'' \<noteq> ''USD''" by simp
  have b: "map_of ([] :: (string \<times> (string \<times> real) list) list) (''BTC'' @ ''_'' @ ''USD'') = None"
    by simp
  have c: "get_total_value
       \<lparr>user_id = 1, wallets = [(''USD'', \<lparr>currency_code = ''USD'', balance = 100\<rparr>)] @ []\<rparr>
       ''USD'' (Some []) = Inr 100"
    by (simp add: get_total_value_def)
  from missing_pair_valued_by_demo_rate_or_zero [OF a b c, of "\<lparr>currency_code = ''BTC'', balance = 2\<rparr>"] a b c
  show ?thesis by simp
qed

text \<open>
  Claim C10 as stated covers every wallet whose pair is absent, also a wallet in the base
  currency itself. For a USD wallet of 100 valued in USD the pair \<^verbatim>\<open>USD_USD\<close> is absent from
  the (empty) rates and is not a demo pair, yet the wallet adds its balance 100 to the
  total, not 0.
\<close>

theorem base_currency_wallet_counterexample:
  "map_of ([] :: (string \<times> (string \<times> real) list) list) (''USD'' @ ''_'' @ ''USD'') = None
   \<and> map_of demo_rates (''USD'' @ ''_'' @ ''USD'') = None
   \<and> get_total_value \<lparr>user_id = 1, wallets = []\<rparr> ''USD'' (Some []) = Inr 0
   \<and> get_total_value
       \<lparr>user_id = 1, wallets = [(''USD'', \<lparr>currency_code = ''USD'', balance = 100\<rparr>)]\<rparr>
       ''USD'' (Some []) = Inr 100"
  by (simp add: get_total_value_def demo_rates_def)

subsection \<open>Rates updater\<close>

lemma storage_calls_log_to: "storage_calls (log_to level msg st) = storage_calls st"
  by (simp add: log_to_def)

lemma logged_log_to: "logged (log_to level msg st) = logged st @ [(level, msg)]"
  by (simp add: log_to_def)

lemma dict_update_Nil: "dict_update d [] = d"
  by (simp add: dict_update_def)

lemma update_loop_logged_grows:
  "set (logged st) \<subseteq> set (logged (snd (update_loop clients names acc st)))"
proof (induction names arbitrary: acc st)
  case Nil
  show ?case by simp
next
  case (Cons n names)
  have step: "set (logged st) \<subseteq> set (logged st') \<Longrightarrow>
              set (logged st) \<subseteq> set (logged (snd (update_loop clients names acc' st')))"
    for st' acc'
    using Cons.IH [of st' acc'] by blast
  show ?case
    by (auto simp: Let_def logged_log_to split: option.splits sum.splits exn.splits prod.splits
          intro!: step [THEN subsetD])
qed

lemma adds_nothing_cases:
  assumes "adds_nothing x"
  obtains "x = None"
  | client_log reason where "x = Some (client_log, Inl (ApiRequestError reason))"
  | client_log where "x = Some (client_log, Inr [])"
  using assms by (cases x rule: adds_nothing.cases) auto

lemma update_loop_adds_nothing:
  assumes "\<forall>n \<in> set names. adds_nothing (map_of clients n)"
  shows "fst (update_loop clients names acc st) = Inr acc
       \<and> storage_calls (snd (update_loop clients names acc st)) = storage_calls st"
  using assms
proof (induction names arbitrary: st)
  case Nil
  show ?case by simp
next
  case (Cons n names)
  then have rest: "\<forall>m \<in> set names. adds_nothing (map_of clients m)"
    and this_one: "adds_nothing (map_of clients n)"
    by simp_all
  note IH = Cons.IH [OF rest]
  from this_one show ?case
  proof (cases rule: adds_nothing_cases)
    case 1
    then show ?thesis using IH by (simp add: storage_calls_log_to)
  next
    case (2 client_log reason)
    then show ?thesis using IH by (simp add: storage_calls_log_to)
  next
    case (3 client_log)
    then show ?thesis using IH by (simp add: storage_calls_log_to dict_update_Nil)
  qed
qed

lemma update_loop_warns_unknown:
  assumes "n \<in> set names" and "map_of clients n = None"
    and "\<forall>m \<in> set names. adds_nothing (map_of clients m)"
  shows "(WARNING, UnknownSource n) \<in> set (logged (snd (update_loop clients names acc st)))"
  using assms
proof (induction names arbitrary: st)
  case Nil
  then show ?case by simp
next
  case (Cons m names)
  then have rest: "\<forall>k \<in> set names. adds_nothing (map_of clients k)"
    and this_one: "adds_nothing (map_of clients m)"
    by simp_all
  show ?case
  proof (cases "m = n")
    case True
    have "(WARNING, UnknownSource n) \<in> set (logged (log_to WARNING (UnknownSource n) st))"
      by (simp add: logged_log_to)
    with update_loop_logged_grows [of "log_to WARNING (UnknownSource n) st" clients names acc]
    show ?thesis
      using True Cons.prems(2) by auto
  next
    case False
    with Cons.prems(1) have later: "n \<in> set names" by simp
    note IH = Cons.IH [OF later Cons.prems(2) rest]
    from this_one show ?thesis
      by (cases rule: adds_nothing_cases) (simp_all add: IH dict_update_Nil)
  qed
qed

text \<open>
  Claim C6. When every source of the working set adds nothing, because its name is
  unknown, or its \<^verbatim>\<open>fetch_rates\<close> raises \<^verbatim>\<open>ApiRequestError\<close>, or it returns no pair, then
  \<^verbatim>\<open>run_update\<close> returns the empty mapping without raising and makes no call to the
  storage, so the current-rates snapshot is not written; every unknown name of the
  working set has been logged with a warning.
\<close>

theorem run_update_without_rates_writes_nothing:
  assumes "\<forall>n \<in> set (sources_to_update clients source). adds_nothing (map_of clients n)"
  shows "fst (run_update clients source st) = Inr []
       \<and> storage_calls (snd (run_update clients source st)) = storage_calls st
       \<and> (\<forall>n \<in> set (sources_to_update clients source).
            map_of clients n = None \<longrightarrow>
            (WARNING, UnknownSource n) \<in> set (logged (snd (run_update clients source st))))"
proof -
  let ?st0 = "log_to INFO UpdateStarted st"
  let ?loop = "update_loop clients (sources_to_update clients source) [] ?st0"
  from update_loop_adds_nothing [OF assms, of "[]" ?st0]
  have res: "fst ?loop = Inr []" and calls: "storage_calls (snd ?loop) = storage_calls st"
    by (simp_all add: storage_calls_log_to)
  obtain st1 where loop: "?loop = (Inr [], st1)"
    using res by (cases ?loop) simp
  have run: "run_update clients source st = (Inr [], log_to WARNING NothingUpdated st1)"
    by (simp add: run_update_def Let_def loop)
  have "(WARNING, UnknownSource n) \<in> set (logged (log_to WARNING NothingUpdated st1))"
    if "n \<in> set (sources_to_update clients source)" and "map_of clients n = None" for n
    using update_loop_warns_unknown [OF that assms, of "[]" ?st0] loop
    by (simp add: logged_log_to)
  then show ?thesis
    using run calls loop by (simp add: storage_calls_log_to)
qed

theorem run_update_without_rates_writes_nothing_witness:
  "sources_to_update [(''coingecko'', timed_out), (''exchangerate'', quota_reached)] None
     = [''coingecko'', ''exchangerate'']
   \<and> adds_nothing (map_of [(''coingecko'', timed_out), (''exchangerate'', quota_reached)]
                      ''coingecko'')
   \<and> adds_nothing (map_of [(''coingecko'', timed_out), (''exchangerate'', quota_reached)]
                      ''exchangerate'')
   \<and> fst (run_update [(''coingecko'', timed_out), (''exchangerate'', quota_reached)] None
            fresh_updater) = Inr []
   \<and> storage_calls
        (snd (run_update [(''coingecko'', timed_out), (''exchangerate'', quota_reached)] None
                fresh_updater)) = []
   \<and> sources_to_update [(''coingecko'', timed_out), (''exchangerate'', quota_reached)]
        (Some ''binance'')
     = [''binance'']
   \<and> map_of [(''coingecko'', timed_out), (''exchangerate'', quota_reached)] ''binance'' = None
   \<and> fst (run_update [(''coingecko'', timed_out), (''exchangerate'', quota_reached)]
            (Some ''binance'') fresh_updater) = Inr []
   \<and> storage_calls
        (snd (run_update [(''coingecko'', timed_out), (''exchangerate'', quota_reached)]
                (Some ''binance'') fresh_updater)) = []
   \<and> (WARNING, UnknownSource ''binance'')
        \<in> set (logged
                 (snd (run_update [(''coingecko'', timed_out), (''exchangerate'', quota_reached)]
                         (Some ''binance'') fresh_updater)))"
proof -
  let ?clients = "[(''coingecko'', timed_out), (''exchangerate'', quota_reached)]"
  have all_fail: "\<forall>n \<in> set (sources_to_update ?clients None). adds_nothing (map_of ?clients n)"
    by (simp add: sources_to_update_def timed_out_def quota_reached_def)
  have unknown: "\<forall>n \<in> set (sources_to_update ?clients (Some ''binance'')).
                   adds_nothing (map_of ?clients n)"
    by (simp add: sources_to_update_def)
  have working_sets:
    "sources_to_update ?clients None = [''coingecko'', ''exchangerate'']"
    "sources_to_update ?clients (Some ''binance'') = [''binance'']"
    by (simp_all add: sources_to_update_def)
  have each: "adds_nothing (map_of ?clients ''coingecko'')"
    "adds_nothing (map_of ?clients ''exchangerate'')"
    "map_of ?clients ''binance'' = None"
    by (simp_all add: timed_out_def quota_reached_def)
  from run_update_without_rates_writes_nothing [OF all_fail, of fresh_updater]
       run_update_without_rates_writes_nothing [OF unknown, of fresh_updater]
  show ?thesis using working_sets each by (simp add: fresh_updater_def)
qed

lemma update_fresh_key: "k \<notin> fst ` set al \<Longrightarrow> AList.update k v al = al @ [(k, v)]"
  by (induction al) auto

lemma fold_update_distinct:
  "distinct (map fst (acc @ xs)) \<Longrightarrow> fold (\<lambda>(k, v). AList.update k v) xs acc = acc @ xs"
proof (induction xs arbitrary: acc)
  case Nil
  show ?case by simp
next
  case (Cons x xs)
  obtain k v where x: "x = (k, v)" by (cases x)
  from Cons.prems have fresh: "k \<notin> fst ` set acc" and rest: "distinct (map fst ((acc @ [(k, v)]) @ xs))"
    by (auto simp: x)
  show ?case
    using Cons.IH [OF rest] by (simp add: x update_fresh_key [OF fresh])
qed

lemma dict_update_into_empty: "distinct (map fst rates) \<Longrightarrow> dict_update [] rates = rates"
  using fold_update_distinct [of "[]" rates] by (simp add: dict_update_def)

lemma two_pieces: "length xs = 2 \<Longrightarrow> xs = [xs ! 0, xs ! 1]"
  by (cases xs; cases "tl xs") auto

lemma save_history_well_formed:
  assumes "\<forall>(pair, rate) \<in> set rates. length (split_on CHR ''_'' pair) = 2"
  shows "save_history client_name rates calls = (Inr (), calls @ history_of client_name rates)"
  using assms
proof (induction rates arbitrary: calls)
  case Nil
  show ?case by (simp add: history_of_def)
next
  case (Cons x rates)
  obtain pair rate where x: "x = (pair, rate)" by (cases x)
  from Cons.prems have len: "length (split_on CHR ''_'' pair) = 2"
    and rest: "\<forall>(pair, rate) \<in> set rates. length (split_on CHR ''_'' pair) = 2"
    by (auto simp: x)
  from two_pieces [OF len] obtain a b where ab: "split_on CHR ''_'' pair = [a, b]"
    by blast
  show ?case
    using Cons.IH [OF rest] by (simp add: x ab history_of_def)
qed

text \<open>
  Claim C5. \<^verbatim>\<open>self.clients\<close> holds two sources, in either order: one whose \<^verbatim>\<open>fetch_rates\<close>
  raises \<^verbatim>\<open>ApiRequestError\<close> and one that returns a non-empty mapping of pairs (distinct
  keys, as in any dictionary, each key of the form \<^verbatim>\<open>FROM_TO\<close>). Then \<^verbatim>\<open>run_update()\<close> raises
  nothing and returns exactly that mapping, and the storage receives one historical
  record for each of its pairs followed by the write of that mapping as the current-rates
  snapshot with the origin \<^verbatim>\<open>ParserService\<close>.
\<close>

theorem run_update_survives_one_failing_source:
  assumes names: "failing_name \<noteq> ok_name"
    and failing: "failing = (failing_log, Inl (ApiRequestError reason))"
    and ok: "ok = (ok_log, Inr rates)"
    and nonempty: "rates \<noteq> []"
    and keys: "distinct (map fst rates)"
    and pairs: "\<forall>(pair, rate) \<in> set rates. length (split_on CHR ''_'' pair) = 2"
    and clients: "clients = [(failing_name, failing), (ok_name, ok)]
                \<or> clients = [(ok_name, ok), (failing_name, failing)]"
  shows "fst (run_update clients None st) = Inr rates
       \<and> storage_calls (snd (run_update clients None st))
           = storage_calls st @ history_of ok_name rates
               @ [SaveCurrentRates rates ''ParserService'']"
  using clients
proof
  assume "clients = [(failing_name, failing), (ok_name, ok)]"
  then show ?thesis
    using names nonempty
    by (simp add: run_update_def sources_to_update_def failing ok Let_def log_to_def
          dict_update_into_empty [OF keys] save_history_well_formed [OF pairs])
next
  assume "clients = [(ok_name, ok), (failing_name, failing)]"
  then show ?thesis
    using names nonempty
    by (simp add: run_update_def sources_to_update_def failing ok Let_def log_to_def
          dict_update_into_empty [OF keys] save_history_well_formed [OF pairs])
qed

theorem run_update_survives_one_failing_source_witness:
  "''coingecko'' \<noteq> ''exchangerate''
   \<and> three_fiat_rates \<noteq> []
   \<and> distinct (map fst three_fiat_rates)
   \<and> map (\<lambda>(pair, rate). split_on CHR ''_'' pair) three_fiat_rates
       = [[''EUR'', ''USD''], [''GBP'', ''USD''], [''RUB'', ''USD'']]
   \<and> fst (run_update [(''coingecko'', timed_out), (''exchangerate'', ([], Inr three_fiat_rates))]
            None fresh_updater)
       = Inr three_fiat_rates
   \<and> storage_calls
        (snd (run_update
                [(''coingecko'', timed_out), (''exchangerate'', ([], Inr three_fiat_rates))]
                None fresh_updater))
       = [SaveHistoricalRecord ''EUR'' ''USD'' 1.08 ''EXCHANGERATE'' (0, 200),
          SaveHistoricalRecord ''GBP'' ''USD'' 1.27 ''EXCHANGERATE'' (0, 200),
          SaveHistoricalRecord ''RUB'' ''USD'' 0.011 ''EXCHANGERATE'' (0, 200),
          SaveCurrentRates three_fiat_rates ''ParserService'']"
proof -
  have a: "''coingecko'' \<noteq> ''exchangerate''" by simp
  have b: "three_fiat_rates \<noteq> []" by (simp add: three_fiat_rates_def)
  have c: "distinct (map fst three_fiat_rates)" by (simp add: three_fiat_rates_def)
  have d: "\<forall>(pair, rate) \<in> set three_fiat_rates. length (split_on CHR ''_'' pair) = 2"
    by (simp add: three_fiat_rates_def)
  have e: "history_of ''exchangerate'' three_fiat_rates
         = [SaveHistoricalRecord ''EUR'' ''USD'' 1.08 ''EXCHANGERATE'' (0, 200),
            SaveHistoricalRecord ''GBP'' ''USD'' 1.27 ''EXCHANGERATE'' (0, 200),
            SaveHistoricalRecord ''RUB'' ''USD'' 0.011 ''EXCHANGERATE'' (0, 200)]"
    by (simp add: history_of_def three_fiat_rates_def string_defs)
  have f: "map (\<lambda>(pair, rate). split_on CHR ''_'' pair) three_fiat_rates
         = [[''EUR'', ''USD''], [''GBP'', ''USD''], [''RUB'', ''USD'']]"
    by (simp add: three_fiat_rates_def)
  from run_update_survives_one_failing_source
         [OF a timed_out_def refl b c d disjI1 [OF refl], of "[]" fresh_updater]
  show ?thesis using a b c e f by (simp add: fresh_updater_def)
qed

text \<open>
  Claim C8. When the API key of the fiat provider is not configured (\<^verbatim>\<open>None\<close> or the empty
  string), \<^verbatim>\<open>ExchangeRateApiClient.fetch_rates\<close> makes no request, logs a warning and returns
  the empty mapping instead of raising. The sibling source is not affected: \<^verbatim>\<open>run_update\<close>
  returns, and hands to the storage, what it would with the sibling as its only client.
\<close>

theorem fetch_rates_without_api_key:
  assumes "EXCHANGERATE_API_KEY config = None \<or> EXCHANGERATE_API_KEY config = Some ''''"
  shows "ExchangeRateApiClient_fetch_rates config http
           = ([(INFO, FetchingFiatRates), (WARNING, ApiKeyNotConfigured)], Inr [])
       \<and> fst (run_update [(''coingecko'', sibling),
                           (''exchangerate'', ExchangeRateApiClient_fetch_rates config http)]
                None st)
           = fst (run_update [(''coingecko'', sibling)] None st)
       \<and> storage_calls
           (snd (run_update [(''coingecko'', sibling),
                             (''exchangerate'', ExchangeRateApiClient_fetch_rates config http)]
                   None st))
           = storage_calls (snd (run_update [(''coingecko'', sibling)] None st))"
proof -
  let ?empty = "([(INFO, FetchingFiatRates), (WARNING, ApiKeyNotConfigured)], Inr [])"
  have fetch: "ExchangeRateApiClient_fetch_rates config http = ?empty"
    using assms by (auto simp: ExchangeRateApiClient_fetch_rates_def)
  obtain sibling_log outcome where sib: "sibling = (sibling_log, outcome)"
    by (cases sibling)
  have "fst (run_update [(''coingecko'', sibling), (''exchangerate'', ?empty)] None st)
           = fst (run_update [(''coingecko'', sibling)] None st)
       \<and> storage_calls
           (snd (run_update [(''coingecko'', sibling), (''exchangerate'', ?empty)] None st))
           = storage_calls (snd (run_update [(''coingecko'', sibling)] None st))"
    by (simp add: run_update_def sources_to_update_def sib Let_def log_to_def dict_update_Nil
          split: sum.splits exn.splits prod.splits)
  with fetch show ?thesis by simp
qed

theorem fetch_rates_without_api_key_witness:
  "EXCHANGERATE_API_KEY no_key_config = None
   \<and> ExchangeRateApiClient_fetch_rates no_key_config (\<lambda>url. RequestException ''unreachable'')
       = ([(INFO, FetchingFiatRates), (WARNING, ApiKeyNotConfigured)], Inr [])
   \<and> fst (run_update
             [(''coingecko'', ([], Inr [(''BTC_USD'', 59337.21)])),
              (''exchangerate'',
               ExchangeRateApiClient_fetch_rates no_key_config
                 (\<lambda>url. RequestException ''unreachable''))]
             None fresh_updater)
       = Inr [(''BTC_USD'', 59337.21)]"
proof -
  have k: "EXCHANGERATE_API_KEY no_key_config = None" by (simp add: no_key_config_def)
  have alone: "fst (run_update [(''coingecko'', ([], Inr [(''BTC_USD'', 59337.21)]))] None fresh_updater)
       = Inr [(''BTC_USD'', 59337.21)]"
    by (simp add: run_update_def sources_to_update_def Let_def log_to_def dict_update_def
          fresh_updater_def)
  note no_key =
    fetch_rates_without_api_key [OF disjI1 [OF k],
      of "\<lambda>url. RequestException ''unreachable''" "([], Inr [(''BTC_USD'', 59337.21)])"
         fresh_updater]
  from no_key have same: "fst (run_update
             [(''coingecko'', ([], Inr [(''BTC_USD'', 59337.21)])),
              (''exchangerate'',
               ExchangeRateApiClient_fetch_rates no_key_config
                 (\<lambda>url. RequestException ''unreachable''))]
             None fresh_updater)
       = fst (run_update [(''coingecko'', ([], Inr [(''BTC_USD'', 59337.21)]))] None fresh_updater)"
    by (elim conjE)
  show ?thesis
    using k conjunct1 [OF no_key] trans [OF same alone] by (intro conjI)
qed

subsection \<open>The pairs returned by the fiat client\<close>

text \<open>
  When no configured currency code contains an underscore, every mapping returned by
  \<^verbatim>\<open>ExchangeRateApiClient.fetch_rates\<close> has distinct keys of the form \<^verbatim>\<open>FROM_TO\<close>.
\<close>

lemma split_on_without_separator: "sep \<notin> set s \<Longrightarrow> split_on sep s = [s]"
  by (induction s) auto

lemma split_on_pair:
  "sep \<notin> set a \<Longrightarrow> sep \<notin> set b \<Longrightarrow> split_on sep (a @ sep # b) = [a, b]"
  by (induction a) (auto simp: split_on_without_separator)

lemma fiat_rates_loop_keys:
  "fst ` set (fiat_rates_loop base conversion_rates curs acc)
     \<subseteq> fst ` set acc \<union> (\<lambda>cur. cur @ ''_'' @ base) ` set curs"
proof (induction curs arbitrary: acc)
  case Nil
  show ?case by simp
next
  case (Cons cur curs)
  show ?case
  proof (cases "map_of conversion_rates cur")
    case None
    then show ?thesis using Cons.IH [of acc] by auto
  next
    case (Some v)
    then show ?thesis
      using Cons.IH [of "AList.update (cur @ ''_'' @ base) v acc"]
      by (auto simp: dom_update)
  qed
qed

lemma fiat_rates_loop_distinct:
  "distinct (map fst acc) \<Longrightarrow>
     distinct (map fst (fiat_rates_loop base conversion_rates curs acc))"
  by (induction curs arbitrary: acc) (auto simp: distinct_update split: option.splits)

lemma ExchangeRateApiClient_rates_well_formed:
  assumes "ExchangeRateApiClient_fetch_rates config http = (client_log, Inr rates)"
    and "CHR ''_'' \<notin> set (BASE_CURRENCY config)"
    and "\<forall>cur \<in> set (FIAT_CURRENCIES config). CHR ''_'' \<notin> set cur"
  shows "distinct (map fst rates)
       \<and> (\<forall>(pair, rate) \<in> set rates. length (split_on CHR ''_'' pair) = 2)"
proof -
  let ?loop = "\<lambda>m. fiat_rates_loop (BASE_CURRENCY config) m (FIAT_CURRENCIES config) []"
  from assms(1) consider "rates = []" | m where "rates = ?loop m"
    by (auto simp: ExchangeRateApiClient_fetch_rates_def Let_def
          split: option.splits if_splits prod.splits sum.splits json_body.splits)
  then show ?thesis
  proof cases
    case 1
    then show ?thesis by simp
  next
    case 2
    have "length (split_on CHR ''_'' pair) = 2" if "(pair, rate) \<in> set rates" for pair rate
    proof -
      from that have "pair \<in> fst ` set (?loop m)"
        unfolding 2 by force
      with fiat_rates_loop_keys [of "BASE_CURRENCY config" m "FIAT_CURRENCIES config" "[]"]
      obtain cur where "cur \<in> set (FIAT_CURRENCIES config)"
        and "pair = cur @ ''_'' @ BASE_CURRENCY config"
        by auto
      then show ?thesis
        using assms(2,3) split_on_pair [of "CHR ''_''" cur "BASE_CURRENCY config"] by simp
    qed
    then show ?thesis
      using fiat_rates_loop_distinct [of "[]"] by (auto simp: 2)
  qed
qed

end
